theory Spec2Isabelle
  imports Complex_Main
begin

section \<open>The declarations of fdmhestonsolver.hpp\<close>

text \<open>
  The class \<^verbatim>\<open>FdmHestonSolver\<close> is declared in
  \<^verbatim>\<open>ql/methods/finitedifferences/multidim/fdmhestonsolver.hpp\<close>. The header
  fixes the scheme enumeration, the constructor's parameter list with its default
  arguments, the four query methods with their \<^verbatim>\<open>const\<close> qualifier, and the
  data members with their \<^verbatim>\<open>const\<close> and \<^verbatim>\<open>mutable\<close> qualifiers.

  \<^verbatim>\<open>Real\<close> and \<^verbatim>\<open>Time\<close> are QuantLib's floating-point typedefs; they are
  read here as mathematical reals, so a literal such as \<^verbatim>\<open>0.3\<close> stands for the
  decimal the source writes. \<^verbatim>\<open>Size\<close> is an unsigned count; no arithmetic is
  done on it here, so it is a natural number.
\<close>

type_synonym Real = real
type_synonym Time = real
type_synonym Size = nat

text \<open>
  \<^verbatim>\<open>enum FdmSchemeType { HundsdorferScheme, DouglasScheme, CraigSneydScheme };\<close>
\<close>

datatype FdmSchemeType = HundsdorferScheme | DouglasScheme | CraigSneydScheme

subsection \<open>The constructor's default arguments\<close>

text \<open>
  The constructor ends with
  \<^verbatim>\<open>FdmSchemeType type = HundsdorferScheme, Real theta = 0.3, Real mu = 0.5\<close>.
  A C++ call may leave out trailing arguments only, so a call site gives none of the
  three, the type, the type and theta, or all three. \<open>scheme_args\<close> is what the
  call site writes; \<open>arg_type\<close>, \<open>arg_theta\<close> and \<open>arg_mu\<close> are the values the
  constructor's parameters then hold.
\<close>

datatype scheme_args =
    NoSchemeArgs
  | TypeArg FdmSchemeType
  | TypeThetaArgs FdmSchemeType Real
  | TypeThetaMuArgs FdmSchemeType Real Real

primrec arg_type :: "scheme_args \<Rightarrow> FdmSchemeType" where
  "arg_type NoSchemeArgs = HundsdorferScheme"
| "arg_type (TypeArg t) = t"
| "arg_type (TypeThetaArgs t th) = t"
| "arg_type (TypeThetaMuArgs t th m) = t"

primrec arg_theta :: "scheme_args \<Rightarrow> Real" where
  "arg_theta NoSchemeArgs = 0.3"
| "arg_theta (TypeArg t) = 0.3"
| "arg_theta (TypeThetaArgs t th) = th"
| "arg_theta (TypeThetaMuArgs t th m) = th"

primrec arg_mu :: "scheme_args \<Rightarrow> Real" where
  "arg_mu NoSchemeArgs = 0.5"
| "arg_mu (TypeArg t) = 0.5"
| "arg_mu (TypeThetaArgs t th) = 0.5"
| "arg_mu (TypeThetaMuArgs t th m) = m"

text \<open>The scheme selection as the constructor receives it: a variant and two reals.\<close>

definition scheme_selection :: "scheme_args \<Rightarrow> FdmSchemeType \<times> Real \<times> Real" where
  "scheme_selection a = (arg_type a, arg_theta a, arg_mu a)"

subsection \<open>The data members\<close>

text \<open>
  \<^verbatim>\<open>Handle<T>\<close> and \<^verbatim>\<open>boost::shared_ptr<T>\<close> members point to objects that live
  outside the solver (the process, the mesher, the boundary conditions, the step
  conditions): a member of such a type is an address, or the empty pointer.
\<close>

datatype ptr = Null | Addr nat

type_synonym Matrix = "Real list list"

text \<open>
  The members in the order of lines 67-80 of the header. A member \<^verbatim>\<open>m_\<close> is written
  \<open>m_'\<close>. The class derives from \<^verbatim>\<open>LazyObject\<close>, whose declaration is in
  \<^verbatim>\<open>ql/patterns/lazyobject.hpp\<close>; the base subobject is the field
  \<open>LazyObject\<close>, of a type left open. \<^verbatim>\<open>interpolation_\<close> is a shared pointer to a
  spline that the solver creates and nobody else holds, so the field holds the spline
  by value, and \<open>None\<close> is the empty pointer.
\<close>

record ('base, 'spline) FdmHestonSolver =
  LazyObject :: 'base
  process_' :: ptr
  mesher_' :: ptr
  bcSet_' :: "ptr list"
  thetaCondition_' :: ptr
  condition_' :: ptr
  maturity_' :: Time
  timeSteps_' :: Size
  schemeType_' :: FdmSchemeType
  theta_' :: Real
  mu_' :: Real
  x_' :: "Real list"
  v_' :: "Real list"
  initialValues_' :: "Real list"
  resultValues_' :: Matrix
  interpolation_' :: "'spline option"

subsection \<open>Const member functions\<close>

text \<open>
  \<^verbatim>\<open>valueAt\<close>, \<^verbatim>\<open>deltaAt\<close>, \<^verbatim>\<open>gammaAt\<close> and \<^verbatim>\<open>thetaAt\<close> are declared
  \<^verbatim>\<open>const\<close> (lines 58-61), and so is \<^verbatim>\<open>performCalculations\<close> (line 64). Inside a
  const member function the object is const: the function reads every member, and it
  can assign only the members declared \<^verbatim>\<open>mutable\<close>, which are \<^verbatim>\<open>resultValues_\<close>
  and \<^verbatim>\<open>interpolation_\<close> (lines 79-80), and whatever the base class declares
  mutable. The const-ness of a pointer member does not reach the object it points to,
  so the function may also change the objects outside the solver; \<open>'store\<close> is their
  state. A function returns a \<^verbatim>\<open>Real\<close> or throws; what it has written by then
  stays written.

  \<open>mutable_members\<close> is what a const member function can write; a
  \<open>const_method\<close> is the body of one, for whatever code it has.
\<close>

record ('base, 'spline) mutable_members =
  lazy_part :: 'base
  result_part :: Matrix
  interpolation_part :: "'spline option"

type_synonym ('base, 'spline, 'store, 'e, 'args) const_method =
  "('base, 'spline) FdmHestonSolver \<Rightarrow> 'store \<Rightarrow> 'args
     \<Rightarrow> ('e + Real) \<times> ('base, 'spline) mutable_members \<times> 'store"

definition mutable_of :: "('base, 'spline) FdmHestonSolver \<Rightarrow> ('base, 'spline) mutable_members" where
  "mutable_of s =
     \<lparr>lazy_part = LazyObject s, result_part = resultValues_' s,
      interpolation_part = interpolation_' s\<rparr>"

definition assign_mutable ::
  "('base, 'spline) FdmHestonSolver \<Rightarrow> ('base, 'spline) mutable_members
     \<Rightarrow> ('base, 'spline) FdmHestonSolver" where
  "assign_mutable s m =
     s\<lparr>LazyObject := lazy_part m, resultValues_' := result_part m,
       interpolation_' := interpolation_part m\<rparr>"

definition call_const ::
  "('base, 'spline, 'store, 'e, 'args) const_method
     \<Rightarrow> ('base, 'spline) FdmHestonSolver \<Rightarrow> 'store \<Rightarrow> 'args
     \<Rightarrow> ('e + Real) \<times> ('base, 'spline) FdmHestonSolver \<times> 'store" where
  "call_const body s st a =
     (case body s st a of (r, m, st') \<Rightarrow> (r, assign_mutable s m, st'))"

text \<open>
  The public interface after construction is the four queries; the inheritance from
  \<^verbatim>\<open>LazyObject\<close> is private, and the const members rule out assignment of a solver.
  \<open>query\<close> is one call as a client writes it, \<open>query_methods\<close> the four bodies.
\<close>

datatype query =
    ValueAt Real Real
  | DeltaAt Real Real Real
  | GammaAt Real Real Real
  | ThetaAt Real Real

record ('base, 'spline, 'store, 'e) query_methods =
  valueAt_method :: "('base, 'spline, 'store, 'e, Real \<times> Real) const_method"
  deltaAt_method :: "('base, 'spline, 'store, 'e, Real \<times> Real \<times> Real) const_method"
  gammaAt_method :: "('base, 'spline, 'store, 'e, Real \<times> Real \<times> Real) const_method"
  thetaAt_method :: "('base, 'spline, 'store, 'e, Real \<times> Real) const_method"

primrec run_query ::
  "('base, 'spline, 'store, 'e) query_methods \<Rightarrow> query
     \<Rightarrow> ('base, 'spline) FdmHestonSolver \<Rightarrow> 'store
     \<Rightarrow> ('e + Real) \<times> ('base, 'spline) FdmHestonSolver \<times> 'store" where
  "run_query ms (ValueAt s v) = (\<lambda>slv st. call_const (valueAt_method ms) slv st (s, v))"
| "run_query ms (DeltaAt s v eps) = (\<lambda>slv st. call_const (deltaAt_method ms) slv st (s, v, eps))"
| "run_query ms (GammaAt s v eps) = (\<lambda>slv st. call_const (gammaAt_method ms) slv st (s, v, eps))"
| "run_query ms (ThetaAt s v) = (\<lambda>slv st. call_const (thetaAt_method ms) slv st (s, v))"

text \<open>
  A client's queries one after the other, each on the solver and the store the one
  before left, whether it returned or threw. The result is the solver and the store
  after the last one.
\<close>

primrec run_queries ::
  "('base, 'spline, 'store, 'e) query_methods \<Rightarrow> query list
     \<Rightarrow> ('base, 'spline) FdmHestonSolver \<Rightarrow> 'store
     \<Rightarrow> ('base, 'spline) FdmHestonSolver \<times> 'store" where
  "run_queries ms [] = (\<lambda>slv st. (slv, st))"
| "run_queries ms (q # qs) =
     (\<lambda>slv st. case run_query ms q slv st of (r, slv', st') \<Rightarrow> run_queries ms qs slv' st')"

text \<open>Two solvers that differ at most in the mutable members.\<close>

definition same_configuration ::
  "('base, 'spline) FdmHestonSolver \<Rightarrow> ('base, 'spline) FdmHestonSolver \<Rightarrow> bool" where
  "same_configuration s s' \<longleftrightarrow>
     s' = s\<lparr>LazyObject := LazyObject s', resultValues_' := resultValues_' s',
            interpolation_' := interpolation_' s'\<rparr>"

subsection \<open>A concrete solver object\<close>

text \<open>
  A solver with a three by three mesh, and four method bodies that write what a const
  member function can write: the first replaces the result matrix and the spline and
  counts its calls in the store, the second throws, the last empties the spline.
\<close>

definition sample_solver :: "(bool, nat) FdmHestonSolver" where
  "sample_solver =
     \<lparr>LazyObject = False, process_' = Addr 1, mesher_' = Addr 2,
      bcSet_' = [Addr 3, Addr 4], thetaCondition_' = Addr 5, condition_' = Addr 6,
      maturity_' = 1, timeSteps_' = 10, schemeType_' = HundsdorferScheme,
      theta_' = 0.3, mu_' = 0.5, x_' = [0, 1, 2], v_' = [0, 1, 2],
      initialValues_' = [0, 0, 0, 0, 1, 2, 0, 2, 4],
      resultValues_' = [], interpolation_' = None\<rparr>"

definition sample_methods :: "(bool, nat, nat, string) query_methods" where
  "sample_methods =
     \<lparr>valueAt_method = (\<lambda>s st (x, y).
        (Inr (x + y),
         \<lparr>lazy_part = True, result_part = [[x, y]], interpolation_part = Some 1\<rparr>,
         Suc st)),
      deltaAt_method = (\<lambda>s st (x, y, eps). (Inl ''eps'', mutable_of s, st)),
      gammaAt_method = (\<lambda>s st (x, y, eps). (Inr 0, mutable_of s, st)),
      thetaAt_method = (\<lambda>s st (x, y).
        (Inr (maturity_' s), (mutable_of s)\<lparr>interpolation_part := None\<rparr>, st))\<rparr>"

section \<open>Lazy evaluation of the solver\<close>

text \<open>
  The header declares \<^verbatim>\<open>class FdmHestonSolver : LazyObject\<close>, the protected
  \<^verbatim>\<open>performCalculations() const\<close> and the four queries, but the bodies
  (\<^verbatim>\<open>fdmhestonsolver.cpp\<close>) and the base class (\<^verbatim>\<open>ql/patterns/lazyobject.hpp\<close>)
  are in files other than the header. The definitions of this section follow the
  specification's sections 4.6, 4.7 and 7 instead. They are bodies of const member
  functions in the sense above, so they write the mutable members only.
\<close>

text \<open>
  Modelled from the spec: the error taxonomy of section 7 (the exception classes are
  declared outside the header): a configuration error, a computation error (numerical
  instability, propagated), and the domain error of a query outside the meshed domain.
\<close>

datatype error = ConfigurationError | ComputationError | DomainError

text \<open>
  Modelled from the spec: the state of the lazy-object base class (its code is outside
  the header). Section 4.6: "State machine with two states: stale (inputs changed or
  never computed) and fresh (last-computed grid available)."
\<close>

datatype lazy_state = Stale | Fresh

text \<open>
  Modelled from the spec: the notification of the lazy-object base class (its code is
  outside the header). Section 4.6: "Any mutation of an upstream dependency (...)
  transitions the solver to stale".
\<close>

definition update :: "(lazy_state, 'spline) FdmHestonSolver \<Rightarrow> (lazy_state, 'spline) FdmHestonSolver" where
  "update s = s\<lparr>LazyObject := Stale\<rparr>"

text \<open>
  Modelled from the spec: the body of \<^verbatim>\<open>performCalculations\<close> (its code is outside
  the header). Section 4.6, steps (a) to (d): the full recomputation marches the grid
  from maturity to zero and caches the resulting grid; section 4.7: the interpolation is
  built over the fresh grid once per recomputation. The time march itself (mesher,
  operator, scheme, step conditions) is the parameter \<open>solve\<close>: it reads the solver
  and the objects outside it, changes those objects (a snapshot condition records a
  grid), and returns the grid or fails with an error (section 7: propagated). The store
  it leaves is returned in either case: what the march wrote before it failed stays
  written. The spline constructor is the parameter \<open>build\<close>. The first component
  of the result is the error thrown, if any.
\<close>

definition performCalculations ::
  "((lazy_state, 'spline) FdmHestonSolver \<Rightarrow> 'store \<Rightarrow> (error + Matrix) \<times> 'store)
     \<Rightarrow> (Real list \<Rightarrow> Real list \<Rightarrow> Matrix \<Rightarrow> 'spline)
     \<Rightarrow> (lazy_state, 'spline) FdmHestonSolver \<Rightarrow> 'store
     \<Rightarrow> error option \<times> (lazy_state, 'spline) mutable_members \<times> 'store" where
  "performCalculations solve build s st =
     (case solve s st of
        (Inl e, st') \<Rightarrow> (Some e, mutable_of s, st')
      | (Inr grid, st') \<Rightarrow>
          (None,
           \<lparr>lazy_part = LazyObject s, result_part = grid,
            interpolation_part = Some (build (x_' s) (v_' s) grid)\<rparr>,
           st'))"

text \<open>
  Modelled from the spec: \<^verbatim>\<open>LazyObject::calculate\<close> (its code is outside the header).
  Section 4.6: "a query (value/delta/gamma/theta at a point) while stale triggers a full
  recomputation, which (...) caches the resulting grid and transitions to fresh";
  "repeated queries while fresh return the cached result without re-solving". A
  recomputation that fails leaves the solver stale.
\<close>

definition calculate ::
  "((lazy_state, 'spline) FdmHestonSolver \<Rightarrow> 'store \<Rightarrow> (error + Matrix) \<times> 'store)
     \<Rightarrow> (Real list \<Rightarrow> Real list \<Rightarrow> Matrix \<Rightarrow> 'spline)
     \<Rightarrow> (lazy_state, 'spline) FdmHestonSolver \<Rightarrow> 'store
     \<Rightarrow> error option \<times> (lazy_state, 'spline) mutable_members \<times> 'store" where
  "calculate solve build s st =
     (case LazyObject s of
        Fresh \<Rightarrow> (None, mutable_of s, st)
      | Stale \<Rightarrow>
          (case performCalculations solve build s st of
             (Some e, m, st') \<Rightarrow> (Some e, m, st')
           | (None, m, st') \<Rightarrow> (None, m\<lparr>lazy_part := Fresh\<rparr>, st')))"

text \<open>
  Modelled from the spec: the common shape of the four queries (their code is outside
  the header). Section 4.6 names all four ("value/delta/gamma/theta at a point") as the
  queries that recompute while stale and return the cached result while fresh: each
  brings the solver up to date and then reads. \<open>read\<close> is what the query reads: it
  sees the solver as the recomputation left it and the objects outside, returns a value
  or an error, and writes nothing.
\<close>

definition lazy_query ::
  "((lazy_state, 'spline) FdmHestonSolver \<Rightarrow> 'store \<Rightarrow> (error + Matrix) \<times> 'store)
     \<Rightarrow> (Real list \<Rightarrow> Real list \<Rightarrow> Matrix \<Rightarrow> 'spline)
     \<Rightarrow> ((lazy_state, 'spline) FdmHestonSolver \<Rightarrow> 'store \<Rightarrow> 'args \<Rightarrow> error + Real)
     \<Rightarrow> (lazy_state, 'spline, 'store, error, 'args) const_method" where
  "lazy_query solve build read s st a =
     (case calculate solve build s st of
        (Some e, m, st') \<Rightarrow> (Inl e, m, st')
      | (None, m, st') \<Rightarrow> (read (assign_mutable s m) st' a, m, st'))"

text \<open>
  Modelled from the spec: the meshed domain (the check's code is outside the header).
  The mesh coordinates are increasing sequences (section 3), so the domain is the
  rectangle between their first and last entries.
\<close>

definition in_domain :: "('base, 'spline) FdmHestonSolver \<Rightarrow> Real \<Rightarrow> Real \<Rightarrow> bool" where
  "in_domain s x y \<longleftrightarrow>
     x_' s \<noteq> [] \<and> v_' s \<noteq> [] \<and> hd (x_' s) \<le> x \<and> x \<le> last (x_' s)
     \<and> hd (v_' s) \<le> y \<and> y \<le> last (v_' s)"

text \<open>
  Modelled from the spec: reading the interpolated surface (its code is outside the
  header). Section 4.7: "interpolated price at state coordinates (x, y)"; "Query outside
  the meshed domain is a domain error". Evaluating a spline is the parameter
  \<open>eval\<close>. An empty spline pointer cannot be read.
\<close>

definition read_surface ::
  "('spline \<Rightarrow> Real \<Rightarrow> Real \<Rightarrow> Real) \<Rightarrow> ('base, 'spline) FdmHestonSolver
     \<Rightarrow> 'spline option \<Rightarrow> Real \<Rightarrow> Real \<Rightarrow> error + Real" where
  "read_surface eval s sp x y =
     (if in_domain s x y
      then (case sp of None \<Rightarrow> Inl ComputationError | Some f \<Rightarrow> Inr (eval f x y))
      else Inl DomainError)"

text \<open>
  Modelled from the spec: what \<^verbatim>\<open>valueAt\<close> reads (its code is outside the header).
  Section 4.7: the interpolated price at the point, from the solver's own surface.
\<close>

definition valueAt_read ::
  "('spline \<Rightarrow> Real \<Rightarrow> Real \<Rightarrow> Real) \<Rightarrow> (lazy_state, 'spline) FdmHestonSolver
     \<Rightarrow> 'store \<Rightarrow> Real \<times> Real \<Rightarrow> error + Real" where
  "valueAt_read eval s st a = read_surface eval s (interpolation_' s) (fst a) (snd a)"

text \<open>
  Modelled from the spec: what \<^verbatim>\<open>deltaAt\<close>, \<^verbatim>\<open>gammaAt\<close> and \<^verbatim>\<open>thetaAt\<close> read
  (their code is outside the header). Section 4.7 has the first two difference the
  interpolated surface and the third difference the snapshot a step condition recorded,
  "not by re-solving"; the difference formulas are left open here, as three reading
  functions of the up-to-date solver and the objects outside it.
\<close>

record ('spline, 'store) greek_reads =
  deltaAt_read ::
    "(lazy_state, 'spline) FdmHestonSolver \<Rightarrow> 'store \<Rightarrow> Real \<times> Real \<times> Real \<Rightarrow> error + Real"
  gammaAt_read ::
    "(lazy_state, 'spline) FdmHestonSolver \<Rightarrow> 'store \<Rightarrow> Real \<times> Real \<times> Real \<Rightarrow> error + Real"
  thetaAt_read ::
    "(lazy_state, 'spline) FdmHestonSolver \<Rightarrow> 'store \<Rightarrow> Real \<times> Real \<Rightarrow> error + Real"

text \<open>
  Modelled from the spec: the bodies of the four queries (their code is outside the
  header), each the lazy step followed by its reading.
\<close>

definition lazy_methods ::
  "((lazy_state, 'spline) FdmHestonSolver \<Rightarrow> 'store \<Rightarrow> (error + Matrix) \<times> 'store)
     \<Rightarrow> (Real list \<Rightarrow> Real list \<Rightarrow> Matrix \<Rightarrow> 'spline)
     \<Rightarrow> ('spline \<Rightarrow> Real \<Rightarrow> Real \<Rightarrow> Real)
     \<Rightarrow> ('spline, 'store) greek_reads
     \<Rightarrow> (lazy_state, 'spline, 'store, error) query_methods" where
  "lazy_methods solve build eval greeks =
     \<lparr>valueAt_method = lazy_query solve build (valueAt_read eval),
      deltaAt_method = lazy_query solve build (deltaAt_read greeks),
      gammaAt_method = lazy_query solve build (gammaAt_read greeks),
      thetaAt_method = lazy_query solve build (thetaAt_read greeks)\<rparr>"

text \<open>What a query reads from an up-to-date solver, by the query.\<close>

primrec query_read ::
  "('spline \<Rightarrow> Real \<Rightarrow> Real \<Rightarrow> Real) \<Rightarrow> ('spline, 'store) greek_reads \<Rightarrow> query
     \<Rightarrow> (lazy_state, 'spline) FdmHestonSolver \<Rightarrow> 'store \<Rightarrow> error + Real" where
  "query_read eval greeks (ValueAt x y) = (\<lambda>s st. valueAt_read eval s st (x, y))"
| "query_read eval greeks (DeltaAt x y eps) = (\<lambda>s st. deltaAt_read greeks s st (x, y, eps))"
| "query_read eval greeks (GammaAt x y eps) = (\<lambda>s st. gammaAt_read greeks s st (x, y, eps))"
| "query_read eval greeks (ThetaAt x y) = (\<lambda>s st. thetaAt_read greeks s st (x, y))"

text \<open>The solver after a recomputation that returned the grid.\<close>

definition recomputed ::
  "(Real list \<Rightarrow> Real list \<Rightarrow> Matrix \<Rightarrow> 'spline) \<Rightarrow> (lazy_state, 'spline) FdmHestonSolver
     \<Rightarrow> Matrix \<Rightarrow> (lazy_state, 'spline) FdmHestonSolver" where
  "recomputed build s grid =
     s\<lparr>LazyObject := Fresh, resultValues_' := grid,
       interpolation_' := Some (build (x_' s) (v_' s) grid)\<rparr>"

subsection \<open>A concrete lazy solver\<close>

text \<open>
  A time march that counts its runs in the store, also when it fails; a spline that is
  the grid itself, and an evaluation that reads the grid's corner; readings for the
  three sensitivities, the last one from the store; a solver that has never computed,
  and the same solver after its first computation.
\<close>

definition counting_solve ::
  "(lazy_state, Matrix) FdmHestonSolver \<Rightarrow> nat \<Rightarrow> (error + Matrix) \<times> nat" where
  "counting_solve s n =
     (if timeSteps_' s = 0 then (Inl ComputationError, Suc n)
      else (Inr [[0, 0, 0], [0, maturity_' s, 2], [0, 2, 4]], Suc n))"

definition grid_surface :: "Real list \<Rightarrow> Real list \<Rightarrow> Matrix \<Rightarrow> Matrix" where
  "grid_surface xs vs grid = grid"

definition corner_plane :: "Matrix \<Rightarrow> Real \<Rightarrow> Real \<Rightarrow> Real" where
  "corner_plane grid x y =
     (case grid of [] \<Rightarrow> 0 | row # _ \<Rightarrow> (case row of [] \<Rightarrow> 0 | c # _ \<Rightarrow> c + x * y))"

definition sample_greeks :: "(Matrix, nat) greek_reads" where
  "sample_greeks =
     \<lparr>deltaAt_read = (\<lambda>s st a. Inr (snd (snd a))),
      gammaAt_read = (\<lambda>s st a. Inl DomainError),
      thetaAt_read = (\<lambda>s st a. Inr (real st))\<rparr>"

definition stale_solver :: "(lazy_state, Matrix) FdmHestonSolver" where
  "stale_solver =
     \<lparr>LazyObject = Stale, process_' = Addr 1, mesher_' = Addr 2,
      bcSet_' = [Addr 3, Addr 4], thetaCondition_' = Addr 5, condition_' = Addr 6,
      maturity_' = 1, timeSteps_' = 10, schemeType_' = HundsdorferScheme,
      theta_' = 0.3, mu_' = 0.5, x_' = [0, 1, 2], v_' = [0, 1, 2],
      initialValues_' = [0, 0, 0, 0, 1, 2, 0, 2, 4],
      resultValues_' = [], interpolation_' = None\<rparr>"

definition fresh_solver :: "(lazy_state, Matrix) FdmHestonSolver" where
  "fresh_solver =
     stale_solver\<lparr>LazyObject := Fresh,
       resultValues_' := [[0, 0, 0], [0, 1, 2], [0, 2, 4]],
       interpolation_' := Some [[0, 0, 0], [0, 1, 2], [0, 2, 4]]\<rparr>"

definition sample_lazy_methods :: "(lazy_state, Matrix, nat, error) query_methods" where
  "sample_lazy_methods = lazy_methods counting_solve grid_surface corner_plane sample_greeks"

section \<open>Scheme selection and its defaults\<close>

lemma FdmSchemeType_three: "t = HundsdorferScheme \<or> t = DouglasScheme \<or> t = CraigSneydScheme"
  by (cases t) simp_all

lemma FdmSchemeType_UNIV: "(UNIV :: FdmSchemeType set) = {HundsdorferScheme, DouglasScheme, CraigSneydScheme}"
  using FdmSchemeType_three by auto

text \<open>
  C2. The scheme type has exactly three values, pairwise different: Hundsdorfer-Verwer,
  Douglas and Craig-Sneyd. The selection the constructor receives is such a variant
  with two reals. Whenever the call leaves theta out the parameter is 0.3, whenever it
  leaves mu out the parameter is 0.5, and an argument that is written is taken as
  written. (With all three left out the scheme is Hundsdorfer-Verwer.)
\<close>

theorem scheme_selection_defaults:
  "card (UNIV :: FdmSchemeType set) = 3
   \<and> (\<forall>t. t = HundsdorferScheme \<or> t = DouglasScheme \<or> t = CraigSneydScheme)
   \<and> scheme_selection NoSchemeArgs = (HundsdorferScheme, 0.3, 0.5)
   \<and> (\<forall>t. scheme_selection (TypeArg t) = (t, 0.3, 0.5))
   \<and> (\<forall>t th. scheme_selection (TypeThetaArgs t th) = (t, th, 0.5))
   \<and> (\<forall>t th m. scheme_selection (TypeThetaMuArgs t th m) = (t, th, m))"
proof -
  have "card (UNIV :: FdmSchemeType set) = 3"
    by (simp add: FdmSchemeType_UNIV)
  moreover have "\<forall>t. t = HundsdorferScheme \<or> t = DouglasScheme \<or> t = CraigSneydScheme"
    using FdmSchemeType_three by blast
  ultimately show ?thesis
    by (simp add: scheme_selection_def)
qed

theorem scheme_selection_defaults_witness:
  "scheme_selection (TypeArg DouglasScheme) = (DouglasScheme, 3 / 10, 1 / 2)
   \<and> scheme_selection (TypeThetaArgs CraigSneydScheme (2 / 5)) = (CraigSneydScheme, 2 / 5, 1 / 2)"
  using scheme_selection_defaults by simp

section \<open>The queries leave the configuration alone\<close>

lemma same_configuration_refl: "same_configuration s s"
  by (simp add: same_configuration_def)

lemma same_configuration_assign: "same_configuration s (assign_mutable s m)"
  by (simp add: same_configuration_def assign_mutable_def)

lemma same_configuration_trans:
  "same_configuration s s' \<Longrightarrow> same_configuration s' s'' \<Longrightarrow> same_configuration s s''"
  unfolding same_configuration_def
  by (cases s, cases s', cases s'') simp

lemma same_configuration_members:
  "same_configuration s s' \<Longrightarrow>
     process_' s' = process_' s \<and> mesher_' s' = mesher_' s \<and> bcSet_' s' = bcSet_' s
     \<and> thetaCondition_' s' = thetaCondition_' s \<and> condition_' s' = condition_' s
     \<and> maturity_' s' = maturity_' s \<and> timeSteps_' s' = timeSteps_' s
     \<and> schemeType_' s' = schemeType_' s \<and> theta_' s' = theta_' s \<and> mu_' s' = mu_' s
     \<and> x_' s' = x_' s \<and> v_' s' = v_' s \<and> initialValues_' s' = initialValues_' s"
  unfolding same_configuration_def
  by (cases s, cases s') simp

lemma call_const_same_configuration:
  "same_configuration s (fst (snd (call_const body s st a)))"
  by (simp add: call_const_def same_configuration_assign split: prod.splits)

lemma run_query_same_configuration:
  "same_configuration s (fst (snd (run_query ms q s st)))"
  by (cases q) (simp_all add: call_const_same_configuration)

lemma run_queries_same_configuration:
  "same_configuration s (fst (run_queries ms qs s st))"
proof (induction qs arbitrary: s st)
  case Nil
  show ?case by (simp add: same_configuration_refl)
next
  case (Cons q qs)
  obtain r s1 st1 where step: "run_query ms q s st = (r, s1, st1)"
    by (cases "run_query ms q s st") auto
  have "same_configuration s s1"
    using run_query_same_configuration [of s ms q st] step by simp
  moreover have "same_configuration s1 (fst (run_queries ms qs s1 st1))"
    by (rule Cons.IH)
  ultimately show ?case
    using step by (simp add: same_configuration_trans)
qed

text \<open>
  C10. The four public queries are const member functions, so whatever their bodies
  are, and in whatever order and number a client calls them (returning or throwing),
  the solver afterwards has the process handle, the mesher, the boundary-condition
  set, the snapshot condition, the step conditions, the maturity, the number of time
  steps, the scheme type, theta, mu, the two coordinate vectors and the initial values
  it was constructed with: among the members the class declares, only the result
  matrix and the interpolation surface can differ. (The inherited lazy-object part is
  not among them; its declaration is outside the header and nothing is said of it.)
\<close>

theorem queries_keep_configuration:
  "process_' (fst (run_queries ms qs s st)) = process_' s
   \<and> mesher_' (fst (run_queries ms qs s st)) = mesher_' s
   \<and> bcSet_' (fst (run_queries ms qs s st)) = bcSet_' s
   \<and> thetaCondition_' (fst (run_queries ms qs s st)) = thetaCondition_' s
   \<and> condition_' (fst (run_queries ms qs s st)) = condition_' s
   \<and> maturity_' (fst (run_queries ms qs s st)) = maturity_' s
   \<and> timeSteps_' (fst (run_queries ms qs s st)) = timeSteps_' s
   \<and> schemeType_' (fst (run_queries ms qs s st)) = schemeType_' s
   \<and> theta_' (fst (run_queries ms qs s st)) = theta_' s
   \<and> mu_' (fst (run_queries ms qs s st)) = mu_' s
   \<and> x_' (fst (run_queries ms qs s st)) = x_' s
   \<and> v_' (fst (run_queries ms qs s st)) = v_' s
   \<and> initialValues_' (fst (run_queries ms qs s st)) = initialValues_' s
   \<and> fst (run_queries ms qs s st) =
       s\<lparr>LazyObject := LazyObject (fst (run_queries ms qs s st)),
         resultValues_' := resultValues_' (fst (run_queries ms qs s st)),
         interpolation_' := interpolation_' (fst (run_queries ms qs s st))\<rparr>"
proof -
  have same: "same_configuration s (fst (run_queries ms qs s st))"
    by (rule run_queries_same_configuration)
  from same_configuration_members [OF same] same show ?thesis
    by (simp add: same_configuration_def)
qed

theorem queries_keep_configuration_witness:
  "theta_' (fst (run_queries sample_methods [ValueAt 1 2, DeltaAt 1 2 3, ThetaAt 0 0] sample_solver 0)) = 3 / 10
   \<and> mu_' (fst (run_queries sample_methods [ValueAt 1 2, DeltaAt 1 2 3, ThetaAt 0 0] sample_solver 0)) = 1 / 2
   \<and> timeSteps_' (fst (run_queries sample_methods [ValueAt 1 2, DeltaAt 1 2 3, ThetaAt 0 0] sample_solver 0)) = 10
   \<and> resultValues_' (fst (run_queries sample_methods [ValueAt 1 2, DeltaAt 1 2 3, ThetaAt 0 0] sample_solver 0)) = [[1, 2]]
   \<and> resultValues_' sample_solver = []"
  using queries_keep_configuration
    [of sample_methods "[ValueAt 1 2, DeltaAt 1 2 3, ThetaAt 0 0]" sample_solver 0]
  by (simp add: sample_methods_def sample_solver_def call_const_def assign_mutable_def
      mutable_of_def)

section \<open>Queries on a lazy solver\<close>

lemma assign_mutable_of: "assign_mutable s (mutable_of s) = s"
  by (simp add: assign_mutable_def mutable_of_def)

lemma mutable_of_assign: "mutable_of (assign_mutable s m) = m"
  by (simp add: assign_mutable_def mutable_of_def)

lemma calculate_Fresh:
  "LazyObject s = Fresh \<Longrightarrow> calculate solve build s st = (None, mutable_of s, st)"
  by (simp add: calculate_def)

lemma calculate_Stale:
  "LazyObject s = Stale \<Longrightarrow>
     calculate solve build s st =
       (case solve s st of
          (Inl e, st') \<Rightarrow> (Some e, mutable_of s, st')
        | (Inr grid, st') \<Rightarrow> (None, mutable_of (recomputed build s grid), st'))"
  by (simp add: calculate_def performCalculations_def recomputed_def mutable_of_def
      split: prod.splits sum.splits)

lemma assign_recomputed:
  "assign_mutable s (mutable_of (recomputed build s grid)) = recomputed build s grid"
  by (simp add: assign_mutable_def mutable_of_def recomputed_def)

lemma run_query_lazy:
  "run_query (lazy_methods solve build eval greeks) q s st =
     (case calculate solve build s st of
        (Some e, m, st') \<Rightarrow> (Inl e, assign_mutable s m, st')
      | (None, m, st') \<Rightarrow>
          (query_read eval greeks q (assign_mutable s m) st', assign_mutable s m, st'))"
  by (cases q)
     (simp_all add: lazy_methods_def call_const_def lazy_query_def
        split: prod.splits option.splits)

lemma run_query_Fresh:
  "LazyObject s = Fresh \<Longrightarrow>
     run_query (lazy_methods solve build eval greeks) q s st =
       (query_read eval greeks q s st, s, st)"
  by (simp add: run_query_lazy calculate_Fresh assign_mutable_of)

lemma run_queries_Fresh:
  "LazyObject s = Fresh \<Longrightarrow>
     run_queries (lazy_methods solve build eval greeks) qs s st = (s, st)"
  by (induction qs) (simp_all add: run_query_Fresh)

lemma run_query_Stale:
  "LazyObject s = Stale \<Longrightarrow>
     run_query (lazy_methods solve build eval greeks) q s st =
       (case solve s st of
          (Inl e, st') \<Rightarrow> (Inl e, s, st')
        | (Inr grid, st') \<Rightarrow>
            (query_read eval greeks q (recomputed build s grid) st',
             recomputed build s grid, st'))"
  by (simp add: run_query_lazy calculate_Stale assign_mutable_of assign_recomputed
      split: prod.splits sum.splits)

lemma run_query_left_Fresh:
  assumes run: "run_query (lazy_methods solve build eval greeks) q s st = (r1, s1, st1)"
    and fresh: "LazyObject s1 = Fresh"
  shows "r1 = query_read eval greeks q s1 st1"
proof (cases "LazyObject s")
  case Fresh
  with run show ?thesis
    by (auto simp: run_query_Fresh)
next
  case Stale
  obtain out st' where march: "solve s st = (out, st')"
    by (cases "solve s st")
  show ?thesis
  proof (cases out)
    case (Inl e)
    with run Stale march have "s1 = s"
      by (simp add: run_query_Stale)
    with fresh Stale show ?thesis
      by simp
  next
    case (Inr grid)
    with run Stale march show ?thesis
      by (auto simp: run_query_Stale)
  qed
qed

lemma calculate_idem:
  assumes "calculate solve build s st = (None, m, st1)"
  shows "lazy_part m = Fresh \<and> calculate solve build (assign_mutable s m) st1 = (None, m, st1)"
proof -
  have m: "lazy_part m = Fresh"
  proof (cases "LazyObject s")
    case Fresh
    with assms show ?thesis
      by (auto simp: calculate_Fresh mutable_of_def)
  next
    case Stale
    with assms show ?thesis
      by (auto simp: calculate_Stale mutable_of_def recomputed_def split: prod.splits sum.splits)
  qed
  then have "LazyObject (assign_mutable s m) = Fresh"
    by (simp add: assign_mutable_def)
  then have "calculate solve build (assign_mutable s m) st1 = (None, m, st1)"
    by (simp add: calculate_Fresh mutable_of_assign)
  with m show ?thesis
    by simp
qed

text \<open>
  C1. Each of the four queries, on a fresh solver, returns what it reads from the
  cached members and leaves the solver and the objects outside it as they were, and so
  does any sequence of them: the right-hand sides do not mention the time march, so
  nothing is solved again. On a stale solver a query runs the march exactly once; if
  the march fails the error is returned and the solver stays as it was, stale, and if
  it returns a grid the solver caches the grid and the surface built over it, becomes
  fresh, and the query reads from that. A query that leaves the solver fresh, repeated
  at the same point on what it left, returns the same result and changes nothing; so
  two consecutive \<open>valueAt\<close> queries at one point on a fresh solver return the same
  value. A recomputation that succeeds makes the solver fresh, and bringing the solver
  up to date once more is the identity. After \<open>update\<close> the solver is stale.
\<close>

theorem lazy_queries_cached:
  "(LazyObject s = Fresh \<longrightarrow>
      calculate solve build s st = (None, mutable_of s, st)
      \<and> run_query (lazy_methods solve build eval greeks) q s st =
          (query_read eval greeks q s st, s, st)
      \<and> run_queries (lazy_methods solve build eval greeks) qs s st = (s, st))
   \<and> (LazyObject s = Stale \<longrightarrow>
        run_query (lazy_methods solve build eval greeks) q s st =
          (case solve s st of
             (Inl e, st') \<Rightarrow> (Inl e, s, st')
           | (Inr grid, st') \<Rightarrow>
               (query_read eval greeks q (recomputed build s grid) st',
                recomputed build s grid, st')))
   \<and> (\<forall>r1 s1 st1.
        run_query (lazy_methods solve build eval greeks) q s st = (r1, s1, st1)
        \<and> LazyObject s1 = Fresh \<longrightarrow>
          run_query (lazy_methods solve build eval greeks) q s1 st1 = (r1, s1, st1))
   \<and> (\<forall>m st1. calculate solve build s st = (None, m, st1) \<longrightarrow>
        lazy_part m = Fresh
        \<and> calculate solve build (assign_mutable s m) st1 = (None, m, st1))
   \<and> LazyObject (update s) = Stale"
proof (intro conjI allI impI)
  assume "LazyObject s = Fresh"
  then show "calculate solve build s st = (None, mutable_of s, st)"
    by (rule calculate_Fresh)
next
  assume "LazyObject s = Fresh"
  then show "run_query (lazy_methods solve build eval greeks) q s st =
      (query_read eval greeks q s st, s, st)"
    by (rule run_query_Fresh)
next
  assume "LazyObject s = Fresh"
  then show "run_queries (lazy_methods solve build eval greeks) qs s st = (s, st)"
    by (rule run_queries_Fresh)
next
  assume "LazyObject s = Stale"
  then show "run_query (lazy_methods solve build eval greeks) q s st =
      (case solve s st of
         (Inl e, st') \<Rightarrow> (Inl e, s, st')
       | (Inr grid, st') \<Rightarrow>
           (query_read eval greeks q (recomputed build s grid) st',
            recomputed build s grid, st'))"
    by (rule run_query_Stale)
next
  fix r1 s1 st1
  assume both: "run_query (lazy_methods solve build eval greeks) q s st = (r1, s1, st1)
      \<and> LazyObject s1 = Fresh"
  then have "r1 = query_read eval greeks q s1 st1"
    using run_query_left_Fresh [of solve build eval greeks q s st r1 s1 st1] by simp
  with both show "run_query (lazy_methods solve build eval greeks) q s1 st1 = (r1, s1, st1)"
    by (simp add: run_query_Fresh)
next
  fix m st1
  assume c: "calculate solve build s st = (None, m, st1)"
  from calculate_idem [OF c] show "lazy_part m = Fresh"
    by simp
  from calculate_idem [OF c]
  show "calculate solve build (assign_mutable s m) st1 = (None, m, st1)"
    by simp
next
  show "LazyObject (update s) = Stale"
    by (simp add: update_def)
qed

text \<open>
  The first query on the solver that has never computed runs the march once (the store
  counts 1) and leaves the fresh solver; the same query again returns the same value,
  and neither it nor a sequence of the four queries moves the count. After
  \<open>update\<close> a query runs the march again (the count is 2). A march that fails
  returns its error, leaves the solver stale and keeps what it wrote to the store.
\<close>

theorem lazy_queries_cached_witness:
  "LazyObject stale_solver = Stale
   \<and> LazyObject fresh_solver = Fresh
   \<and> run_query sample_lazy_methods (ValueAt 1 2) stale_solver 0 = (Inr 2, fresh_solver, 1)
   \<and> run_query sample_lazy_methods (ValueAt 1 2) fresh_solver 1 = (Inr 2, fresh_solver, 1)
   \<and> run_queries sample_lazy_methods
        [DeltaAt 1 2 (1 / 4), GammaAt 1 2 (1 / 4), ThetaAt 1 2, ValueAt 5 5] fresh_solver 1
       = (fresh_solver, 1)
   \<and> run_query sample_lazy_methods (ThetaAt 1 2) (update fresh_solver) 1
       = (Inr 2, fresh_solver, 2)
   \<and> run_query sample_lazy_methods (ValueAt 1 2) (stale_solver\<lparr>timeSteps_' := 0\<rparr>) 0
       = (Inl ComputationError, stale_solver\<lparr>timeSteps_' := 0\<rparr>, 1)"
proof -
  have stale: "LazyObject stale_solver = Stale"
    by (simp add: stale_solver_def)
  have fresh: "LazyObject fresh_solver = Fresh"
    by (simp add: fresh_solver_def)
  have stale0: "LazyObject (stale_solver\<lparr>timeSteps_' := 0\<rparr>) = Stale"
    by (simp add: stale_solver_def)
  have march: "counting_solve stale_solver n = (Inr [[0, 0, 0], [0, 1, 2], [0, 2, 4]], Suc n)"
    for n
    by (simp add: counting_solve_def stale_solver_def)
  have march2: "counting_solve (update fresh_solver) n
      = (Inr [[0, 0, 0], [0, 1, 2], [0, 2, 4]], Suc n)" for n
    by (simp add: counting_solve_def update_def fresh_solver_def stale_solver_def)
  have march0: "counting_solve (stale_solver\<lparr>timeSteps_' := 0\<rparr>) n
      = (Inl ComputationError, Suc n)" for n
    by (simp add: counting_solve_def)
  have re: "recomputed grid_surface stale_solver [[0, 0, 0], [0, 1, 2], [0, 2, 4]] = fresh_solver"
    by (simp add: recomputed_def grid_surface_def fresh_solver_def)
  have re2: "recomputed grid_surface (update fresh_solver) [[0, 0, 0], [0, 1, 2], [0, 2, 4]]
      = fresh_solver"
    by (simp add: recomputed_def grid_surface_def update_def fresh_solver_def)
  have rd: "valueAt_read corner_plane fresh_solver st (1, 2) = Inr 2" for st :: nat
    by (simp add: valueAt_read_def read_surface_def in_domain_def corner_plane_def
        fresh_solver_def stale_solver_def)
  have rd2: "thetaAt_read sample_greeks fresh_solver st (1, 2) = Inr (real st)" for st
    by (simp add: sample_greeks_def)
  have first: "run_query sample_lazy_methods (ValueAt 1 2) stale_solver 0
      = (Inr 2, fresh_solver, 1)"
    using lazy_queries_cached
      [where s = stale_solver and solve = counting_solve and build = grid_surface
         and eval = corner_plane and greeks = sample_greeks and st = 0
         and q = "ValueAt 1 2", THEN conjunct2, THEN conjunct1, THEN mp, OF stale]
    by (simp add: sample_lazy_methods_def march re rd)
  have second: "run_query sample_lazy_methods (ValueAt 1 2) fresh_solver 1
      = (Inr 2, fresh_solver, 1)"
    using lazy_queries_cached
      [where s = stale_solver and solve = counting_solve and build = grid_surface
         and eval = corner_plane and greeks = sample_greeks and st = 0
         and q = "ValueAt 1 2", THEN conjunct2, THEN conjunct2, THEN conjunct1,
       THEN spec, THEN spec, THEN spec, THEN mp, OF conjI,
       OF first [unfolded sample_lazy_methods_def] fresh]
    by (simp add: sample_lazy_methods_def)
  have seq: "run_queries sample_lazy_methods
        [DeltaAt 1 2 (1 / 4), GammaAt 1 2 (1 / 4), ThetaAt 1 2, ValueAt 5 5] fresh_solver 1
      = (fresh_solver, 1)"
    using lazy_queries_cached
      [where s = fresh_solver and solve = counting_solve and build = grid_surface
         and eval = corner_plane and greeks = sample_greeks and st = 1
         and qs = "[DeltaAt 1 2 (1 / 4), GammaAt 1 2 (1 / 4), ThetaAt 1 2, ValueAt 5 5]",
       THEN conjunct1, THEN mp, OF fresh]
    by (simp add: sample_lazy_methods_def)
  have again: "run_query sample_lazy_methods (ThetaAt 1 2) (update fresh_solver) 1
      = (Inr 2, fresh_solver, 2)"
    using lazy_queries_cached
      [where s = "update fresh_solver" and solve = counting_solve and build = grid_surface
         and eval = corner_plane and greeks = sample_greeks and st = 1
         and q = "ThetaAt 1 2", THEN conjunct2, THEN conjunct1, THEN mp]
      lazy_queries_cached
      [where s = fresh_solver, THEN conjunct2, THEN conjunct2, THEN conjunct2, THEN conjunct2]
    by (simp add: sample_lazy_methods_def march2 re2 rd2)
  have failed: "run_query sample_lazy_methods (ValueAt 1 2) (stale_solver\<lparr>timeSteps_' := 0\<rparr>) 0
      = (Inl ComputationError, stale_solver\<lparr>timeSteps_' := 0\<rparr>, 1)"
    using lazy_queries_cached
      [where s = "stale_solver\<lparr>timeSteps_' := 0\<rparr>" and solve = counting_solve
         and build = grid_surface and eval = corner_plane and greeks = sample_greeks
         and st = 0 and q = "ValueAt 1 2", THEN conjunct2, THEN conjunct1, THEN mp, OF stale0]
    by (simp add: sample_lazy_methods_def march0)
  from stale fresh first second seq again failed show ?thesis
    by (intro conjI)
qed

end
